theory Spec2Isabelle
  imports Main
begin

section \<open>Values that travel through the handlers\<close>

text \<open>
  The value returned by \<^verbatim>\<open>request.get_json()\<close> and the values held in an account's
  fields are Python objects built from JSON: \<^verbatim>\<open>None\<close>, booleans, integers, strings,
  lists and dicts (a dict as an association list, read with \<open>map_of\<close>). Numbers with a
  fractional part are left out of the model.
\<close>

datatype json =
    JNull
  | JBool bool
  | JInt int
  | JStr string
  | JArr "json list"
  | JObj "(string \<times> json) list"

text \<open>
  The exceptions that can leave a call: the error of \<^verbatim>\<open>Account.deserialize\<close>, the
  \<^verbatim>\<open>TypeError\<close> of the JSON encoder, the HTTP exception raised by \<^verbatim>\<open>abort\<close> or by the
  framework (status code and description), and the error of a statement that the store
  rejects.
\<close>

datatype exn =
    DeserializationError string
  | TypeError string
  | HTTPException nat string
  | StoreError

text \<open>
  The argument of \<^verbatim>\<open>jsonify\<close> is a Python object that need not be JSON: line 121 of
  routes.py puts the caught exception object itself into a dict.
\<close>

datatype pyval =
    Val json
  | Exc exn
  | Dict "(string \<times> pyval) list"

text \<open>Python's truth value of such an object, as \<^verbatim>\<open>if not request.get_json()\<close> tests it.\<close>

fun truthy :: "json \<Rightarrow> bool" where
  "truthy JNull = False"
| "truthy (JBool b) = b"
| "truthy (JInt n) = (n \<noteq> 0)"
| "truthy (JStr s) = (s \<noteq> [])"
| "truthy (JArr xs) = (xs \<noteq> [])"
| "truthy (JObj kvs) = (kvs \<noteq> [])"

text \<open>
  \<^verbatim>\<open>jsonify\<close> is Flask's. Its JSON provider encodes \<^verbatim>\<open>None\<close>, booleans, numbers,
  strings, lists and dicts of these, and raises \<^verbatim>\<open>TypeError\<close> for any other object, an
  exception instance among them.
\<close>

fun jsonify :: "pyval \<Rightarrow> exn + json"
  and jsonify_items :: "(string \<times> pyval) list \<Rightarrow> exn + (string \<times> json) list" where
  "jsonify (Val j) = Inr j"
| "jsonify (Exc e) = Inl (TypeError ''Object is not JSON serializable'')"
| "jsonify (Dict kvs) =
     (case jsonify_items kvs of Inl e \<Rightarrow> Inl e | Inr js \<Rightarrow> Inr (JObj js))"
| "jsonify_items [] = Inr []"
| "jsonify_items ((k, v) # kvs) =
     (case jsonify v of
        Inl e \<Rightarrow> Inl e
      | Inr j \<Rightarrow> (case jsonify_items kvs of Inl e \<Rightarrow> Inl e | Inr js \<Rightarrow> Inr ((k, j) # js)))"

section \<open>Requests, responses, status codes\<close>

text \<open>
  Of a request the handlers read two things: the header
  \<^verbatim>\<open>request.headers.get("Content-Type")\<close> (\<open>None\<close> when the header is absent) and the
  outcome of \<^verbatim>\<open>request.get_json()\<close>. That call is the framework's: it hands over the
  value the body parses to (\<open>JObj []\<close> for the body \<^verbatim>\<open>{}\<close>, \<open>JNull\<close> for the body
  \<^verbatim>\<open>null\<close>), or it raises an HTTP exception of its own: 400 when the body is zero-length
  or is not JSON text, and 415 when the request is not declared as JSON (400, or a
  silent \<^verbatim>\<open>None\<close>, in older versions). The model takes the outcome as given.
\<close>

record request =
  content_type :: "string option"
  get_json :: "exn + json"

record response =
  body :: json
  status :: nat
  headers :: "(string \<times> string) list"

text \<open>The constants of \<^verbatim>\<open>service.common.status\<close> that routes.py names.\<close>

abbreviation HTTP_200_OK :: nat where "HTTP_200_OK \<equiv> 200"
abbreviation HTTP_201_CREATED :: nat where "HTTP_201_CREATED \<equiv> 201"
abbreviation HTTP_204_NO_CONTENT :: nat where "HTTP_204_NO_CONTENT \<equiv> 204"
abbreviation HTTP_400_BAD_REQUEST :: nat where "HTTP_400_BAD_REQUEST \<equiv> 400"
abbreviation HTTP_404_NOT_FOUND :: nat where "HTTP_404_NOT_FOUND \<equiv> 404"
abbreviation HTTP_405_METHOD_NOT_ALLOWED :: nat where "HTTP_405_METHOD_NOT_ALLOWED \<equiv> 405"
abbreviation HTTP_409_CONFLICT :: nat where "HTTP_409_CONFLICT \<equiv> 409"
abbreviation HTTP_415_UNSUPPORTED_MEDIA_TYPE :: nat where "HTTP_415_UNSUPPORTED_MEDIA_TYPE \<equiv> 415"
abbreviation HTTP_500_INTERNAL_SERVER_ERROR :: nat where "HTTP_500_INTERNAL_SERVER_ERROR \<equiv> 500"

text \<open>
  A handler returns \<^verbatim>\<open>(jsonify(obj), code)\<close> or
  \<^verbatim>\<open>make_response(jsonify(obj), code, headers)\<close>. The argument \<^verbatim>\<open>jsonify(obj)\<close> is
  evaluated first, and when it raises nothing is returned.
\<close>

definition make_response :: "exn + json \<Rightarrow> nat \<Rightarrow> (string \<times> string) list \<Rightarrow> exn + response" where
  "make_response encoded code hdrs =
     (case encoded of
        Inl e \<Rightarrow> Inl e
      | Inr b \<Rightarrow> Inr \<lparr>body = b, status = code, headers = hdrs\<rparr>)"

text \<open>
  Modelled from the spec: the error handling around the handlers, which is not in src/.
  An \<^verbatim>\<open>abort\<close> answers with its own code, a deserialization error that leaves the create
  handler is answered with 400, and any other uncaught exception is a server fault.
\<close>

fun status_of :: "exn + response \<Rightarrow> nat" where
  "status_of (Inr r) = status r"
| "status_of (Inl (HTTPException code msg)) = code"
| "status_of (Inl (DeserializationError msg)) = HTTP_400_BAD_REQUEST"
| "status_of (Inl (TypeError msg)) = HTTP_500_INTERNAL_SERVER_ERROR"
| "status_of (Inl StoreError) = HTTP_500_INTERNAL_SERVER_ERROR"

section \<open>The Account record and its store\<close>

datatype date = Date nat nat nat

text \<open>
  The clock and the two conversions between dates and text belong to the platform; the
  handlers receive them as an environment.
\<close>

record env =
  today :: date
  parse_date :: "json \<Rightarrow> date"
  isoformat :: "date \<Rightarrow> string"

text \<open>
  Modelled from the spec: the class \<^verbatim>\<open>Account\<close> of service/models.py, which is not in
  src/. The four required fields hold whatever value the payload gave them; \<open>account_id\<close>
  is \<open>None\<close> until the store assigns it.
\<close>

record account =
  account_id :: "int option"
  name :: json
  email :: json
  address :: json
  phone_number :: json
  date_joined :: date

text \<open>
  Modelled from the spec: \<^verbatim>\<open>Account()\<close>, a fresh record whose \<open>date_joined\<close> is the
  default, the creation date.
\<close>

definition Account :: "env \<Rightarrow> account" where
  "Account env =
     \<lparr>account_id = None, name = JNull, email = JNull, address = JNull,
      phone_number = JNull, date_joined = today env\<rparr>"

text \<open>
  Modelled from the spec: \<^verbatim>\<open>serialize\<close>, the mapping of all six attributes, with
  \<open>date_joined\<close> as an ISO date string. It never fails.
\<close>

definition Account_serialize :: "env \<Rightarrow> account \<Rightarrow> json" where
  "Account_serialize env a =
     JObj [(''id'', (case account_id a of None \<Rightarrow> JNull | Some i \<Rightarrow> JInt i)),
           (''name'', name a),
           (''email'', email a),
           (''address'', address a),
           (''phone_number'', phone_number a),
           (''date_joined'', JStr (isoformat env (date_joined a)))]"

text \<open>
  Modelled from the spec: \<^verbatim>\<open>deserialize\<close>. It fails when the payload is not a mapping
  or when one of \<open>name\<close>, \<open>email\<close>, \<open>address\<close>, \<open>phone_number\<close> is absent, and the error
  names the missing field. Other keys are ignored. \<open>date_joined\<close> is parsed when present
  and left as it is otherwise. The store is not touched.
\<close>

fun Account_deserialize :: "env \<Rightarrow> account \<Rightarrow> json \<Rightarrow> exn + account" where
  "Account_deserialize env a (JObj kvs) =
     (case map_of kvs ''name'' of
        None \<Rightarrow> Inl (DeserializationError ''name'')
      | Some n \<Rightarrow>
     (case map_of kvs ''email'' of
        None \<Rightarrow> Inl (DeserializationError ''email'')
      | Some e \<Rightarrow>
     (case map_of kvs ''address'' of
        None \<Rightarrow> Inl (DeserializationError ''address'')
      | Some ad \<Rightarrow>
     (case map_of kvs ''phone_number'' of
        None \<Rightarrow> Inl (DeserializationError ''phone_number'')
      | Some p \<Rightarrow>
          Inr (a\<lparr>name := n, email := e, address := ad, phone_number := p,
                 date_joined := (case map_of kvs ''date_joined'' of
                                   None \<Rightarrow> date_joined a
                                 | Some d \<Rightarrow> parse_date env d)\<rparr>)))))"
| "Account_deserialize env a payload = Inl (DeserializationError ''payload is not a mapping'')"

text \<open>
  The three statements that change the store, each with the in-memory record it is
  issued for.
\<close>

datatype statement = Insert account | Update account | Delete account

text \<open>
  The store is one table of account rows, in insertion order, with the next id the
  store will assign. The relational engine behind it may reject a statement (a
  constraint violation, a lost connection); which statements it rejects is its own
  affair, and the store carries it as \<open>rejects\<close>.
\<close>

record store =
  rows :: "account list"
  next_id :: int
  rejects :: "statement \<Rightarrow> bool"

text \<open>
  Modelled from the spec: the persistence operations of \<^verbatim>\<open>Account\<close>.
  \<open>create\<close> inserts a row and back-fills the id the store assigns; \<open>update\<close> writes the
  in-memory field values to the row with the same id; \<open>delete\<close> removes that row. Each of
  the three is one statement: when the store rejects it, the call raises and the store
  is left as it was. \<open>find\<close> returns the row with the given id or \<open>None\<close>; \<open>all\<close>
  returns every row in order.
\<close>

definition Account_create :: "account \<Rightarrow> store \<Rightarrow> exn + account \<times> store" where
  "Account_create a s =
     (if rejects s (Insert a) then Inl StoreError
      else
        (let a' = a\<lparr>account_id := Some (next_id s)\<rparr>
         in Inr (a', s\<lparr>rows := rows s @ [a'], next_id := next_id s + 1\<rparr>)))"

definition Account_update :: "account \<Rightarrow> store \<Rightarrow> exn + store" where
  "Account_update a s =
     (if rejects s (Update a) then Inl StoreError
      else Inr (s\<lparr>rows := map (\<lambda>r. if account_id r = account_id a then a else r) (rows s)\<rparr>))"

definition Account_delete :: "account \<Rightarrow> store \<Rightarrow> exn + store" where
  "Account_delete a s =
     (if rejects s (Delete a) then Inl StoreError
      else Inr (s\<lparr>rows := filter (\<lambda>r. account_id r \<noteq> account_id a) (rows s)\<rparr>))"

definition Account_find :: "int \<Rightarrow> store \<Rightarrow> account option" where
  "Account_find i s = List.find (\<lambda>r. account_id r = Some i) (rows s)"

definition Account_all :: "store \<Rightarrow> account list" where
  "Account_all s = rows s"

section \<open>The handlers of routes.py\<close>

text \<open>
  Every handler takes the environment, the request and the store, and returns what it
  returned or raised together with the store it leaves. An exception raised by a call
  that the handler does not catch ends the handler. Log lines are not modelled: they
  reach neither the response nor the store.
\<close>

type_synonym handler = "env \<Rightarrow> request \<Rightarrow> store \<Rightarrow> (exn + response) \<times> store"

definition error_body :: "string \<Rightarrow> pyval" where
  "error_body msg = Val (JObj [(''error'', JStr msg)])"

definition health :: handler where
  "health env req s =
     (make_response (jsonify (Val (JObj [(''status'', JStr ''OK'')]))) HTTP_200_OK [], s)"

definition index :: handler where
  "index env req s =
     (make_response
        (jsonify (Val (JObj [(''name'', JStr ''Account REST API Service''),
                             (''version'', JStr ''1.0'')])))
        HTTP_200_OK [], s)"

definition check_content_type :: "string \<Rightarrow> request \<Rightarrow> exn + unit" where
  "check_content_type media_type req =
     (case content_type req of
        None \<Rightarrow> Inl (HTTPException HTTP_415_UNSUPPORTED_MEDIA_TYPE
                       (''Content-Type must be '' @ media_type))
      | Some ct \<Rightarrow>
          if ct \<noteq> [] \<and> ct = media_type then Inr ()
          else Inl (HTTPException HTTP_415_UNSUPPORTED_MEDIA_TYPE
                      (''Content-Type must be '' @ media_type)))"

definition create_accounts :: handler where
  "create_accounts env req s =
     (case check_content_type ''application/json'' req of
        Inl e \<Rightarrow> (Inl e, s)
      | Inr u \<Rightarrow>
          (case get_json req of
             Inl e \<Rightarrow> (Inl e, s)
           | Inr payload \<Rightarrow>
               (case Account_deserialize env (Account env) payload of
                  Inl e \<Rightarrow> (Inl e, s)
                | Inr account \<Rightarrow>
                    (case Account_create account s of
                       Inl e \<Rightarrow> (Inl e, s)
                     | Inr (account', s') \<Rightarrow>
                         (let message = Account_serialize env account';
                              location_url = ''/''
                          in (make_response (jsonify (Val message)) HTTP_201_CREATED
                                [(''Location'', location_url)], s'))))))"

definition read_accounts :: handler where
  "read_accounts env req s =
     (let accounts = Account_all s
      in if accounts \<noteq> [] then
           (let accounts_json = map (Account_serialize env) accounts
            in (make_response (jsonify (Val (JArr accounts_json))) HTTP_200_OK [], s))
         else
           (make_response (jsonify (error_body ''accounts not found'')) HTTP_404_NOT_FOUND [], s))"

definition read_account :: "int \<Rightarrow> handler" where
  "read_account i env req s =
     (case Account_find i s of
        Some account \<Rightarrow>
          (make_response (jsonify (Val (Account_serialize env account))) HTTP_200_OK [], s)
      | None \<Rightarrow>
          (make_response (jsonify (error_body ''account not found'')) HTTP_404_NOT_FOUND [], s))"

definition update_account :: "int \<Rightarrow> handler" where
  "update_account i env req s =
     (case get_json req of
        Inl e \<Rightarrow> (Inl e, s)
      | Inr payload \<Rightarrow>
          if \<not> truthy payload then
            (make_response (jsonify (error_body ''id not found''))
               HTTP_405_METHOD_NOT_ALLOWED [], s)
          else
            (case Account_find i s of
               None \<Rightarrow>
                 (make_response (jsonify (error_body ''id not found''))
                    HTTP_404_NOT_FOUND [], s)
             | Some ac \<Rightarrow>
                 (case Account_deserialize env ac payload of
                    Inl e \<Rightarrow>
                      (make_response
                         (jsonify (Dict [(''error'', Val (JStr ''attribute error'')),
                                         (''details'', Exc e)]))
                         HTTP_409_CONFLICT [], s)
                  | Inr ac' \<Rightarrow>
                      (case Account_update ac' s of
                         Inl e \<Rightarrow> (Inl e, s)
                       | Inr s' \<Rightarrow>
                           (make_response (jsonify (Val (Account_serialize env ac')))
                              HTTP_200_OK [], s')))))"

definition delete_account :: "int \<Rightarrow> handler" where
  "delete_account i env req s =
     (case Account_find i s of
        None \<Rightarrow>
          (make_response (jsonify (error_body ''id not found'')) HTTP_404_NOT_FOUND [], s)
      | Some ac \<Rightarrow>
          (case Account_delete ac s of
             Inl e \<Rightarrow> (Inl e, s)
           | Inr s' \<Rightarrow>
               (Inr \<lparr>body = JObj [], status = HTTP_204_NO_CONTENT, headers = []\<rparr>, s')))"

text \<open>A payload has a field when it is a mapping with that key.\<close>

fun has_field :: "json \<Rightarrow> string \<Rightarrow> bool" where
  "has_field (JObj kvs) f = (map_of kvs f \<noteq> None)"
| "has_field payload f = False"

definition required_fields :: "string list" where
  "required_fields = [''name'', ''email'', ''address'', ''phone_number'']"

section \<open>Sample data\<close>

text \<open>
  A sample platform (dates written and read as \<^verbatim>\<open>YYYY-MM-DD\<close>), a sample account,
  stores and requests, used to run the handlers on concrete inputs.
\<close>

definition digit_char :: "nat \<Rightarrow> char" where
  "digit_char n = ''0123456789'' ! (n mod 10)"

definition digit_val :: "char \<Rightarrow> nat" where
  "digit_val c = length (takeWhile (\<lambda>x. x \<noteq> c) ''0123456789'')"

fun sample_isoformat :: "date \<Rightarrow> string" where
  "sample_isoformat (Date y m d) =
     [digit_char (y div 1000), digit_char (y div 100), digit_char (y div 10), digit_char y,
      CHR ''-'', digit_char (m div 10), digit_char m,
      CHR ''-'', digit_char (d div 10), digit_char d]"

fun sample_parse_date :: "json \<Rightarrow> date" where
  "sample_parse_date (JStr [y1, y2, y3, y4, h1, m1, m2, h2, d1, d2]) =
     Date (1000 * digit_val y1 + 100 * digit_val y2 + 10 * digit_val y3 + digit_val y4)
          (10 * digit_val m1 + digit_val m2)
          (10 * digit_val d1 + digit_val d2)"
| "sample_parse_date j = Date 1970 1 1"

definition sample_env :: env where
  "sample_env =
     \<lparr>today = Date 2024 1 15, parse_date = sample_parse_date, isoformat = sample_isoformat\<rparr>"

definition alice :: account where
  "alice =
     \<lparr>account_id = Some 1, name = JStr ''alice'', email = JStr ''alice@example.com'',
      address = JStr ''1 Main Street'', phone_number = JStr ''555-0100'',
      date_joined = Date 2023 5 6\<rparr>"

definition empty_store :: store where
  "empty_store = \<lparr>rows = [], next_id = 1, rejects = (\<lambda>st. False)\<rparr>"

definition one_store :: store where
  "one_store = \<lparr>rows = [alice], next_id = 2, rejects = (\<lambda>st. False)\<rparr>"

text \<open>The same table behind a lost connection: every statement is rejected.\<close>

definition down_store :: store where
  "down_store = \<lparr>rows = [alice], next_id = 2, rejects = (\<lambda>st. True)\<rparr>"

definition full_fields :: "(string \<times> json) list" where
  "full_fields =
     [(''id'', JNull), (''name'', JStr ''benjamin''), (''email'', JStr ''benjamin@gmail.com''),
      (''address'', JStr ''2 Side Street''), (''phone_number'', JStr ''555-0199''),
      (''date_joined'', JStr ''2020-02-03'')]"

definition full_payload :: json where
  "full_payload = JObj full_fields"

definition city_payload :: json where
  "city_payload = JObj [(''city'', JStr ''goda'')]"

definition json_request :: "json \<Rightarrow> request" where
  "json_request payload =
     \<lparr>content_type = Some ''application/json'', get_json = Inr payload\<rparr>"

definition html_request :: "json \<Rightarrow> request" where
  "html_request payload = \<lparr>content_type = Some ''test/html'', get_json = Inr payload\<rparr>"

text \<open>
  A request with no Content-Type header and no body, and a request declared as JSON
  whose body is zero-length: on both \<^verbatim>\<open>get_json()\<close> raises.
\<close>

definition bare_request :: request where
  "bare_request =
     \<lparr>content_type = None, get_json = Inl (HTTPException 415 ''Unsupported Media Type'')\<rparr>"

definition no_body_request :: request where
  "no_body_request =
     \<lparr>content_type = Some ''application/json'',
      get_json = Inl (HTTPException 400 ''Bad Request'')\<rparr>"

text \<open>
  The record that deserializing \<open>full_payload\<close> onto a fresh account gives, and the one
  it gives onto \<open>alice\<close>.
\<close>

definition benjamin :: account where
  "benjamin =
     \<lparr>account_id = None, name = JStr ''benjamin'', email = JStr ''benjamin@gmail.com'',
      address = JStr ''2 Side Street'', phone_number = JStr ''555-0199'',
      date_joined = Date 2020 2 3\<rparr>"

definition alice_updated :: account where
  "alice_updated =
     \<lparr>account_id = Some 1, name = JStr ''benjamin'', email = JStr ''benjamin@gmail.com'',
      address = JStr ''2 Side Street'', phone_number = JStr ''555-0199'',
      date_joined = Date 2020 2 3\<rparr>"

section \<open>Facts about the Account operations\<close>

lemma jsonify_error_body: "jsonify (error_body msg) = Inr (JObj [(''error'', JStr msg)])"
  by (simp add: error_body_def)

lemma deserialize_missing:
  assumes "f \<in> set required_fields" and "\<not> has_field payload f"
  shows "\<exists>msg. Account_deserialize env a payload = Inl (DeserializationError msg)"
proof (cases payload)
  case (JObj kvs)
  with assms show ?thesis
    by (auto simp: required_fields_def split: option.splits)
qed simp_all

lemma find_id:
  "Account_find i s = Some a \<Longrightarrow> account_id a = Some i \<and> a \<in> set (rows s)"
  by (auto simp: Account_find_def find_Some_iff)

lemma find_after_delete:
  "account_id a = Some i \<Longrightarrow> Account_delete a s = Inr s' \<Longrightarrow> Account_find i s' = None"
  by (auto simp: Account_find_def Account_delete_def find_None_iff split: if_splits)

lemma find_map_replace:
  "List.find (\<lambda>r. account_id r = Some i) xs = Some a \<Longrightarrow> account_id a' = Some i \<Longrightarrow>
   List.find (\<lambda>r. account_id r = Some i)
     (map (\<lambda>r. if account_id r = Some i then a' else r) xs) = Some a'"
  by (induction xs) (auto split: if_splits)

lemma find_after_update:
  "Account_find i s = Some a \<Longrightarrow> account_id a' = Some i \<Longrightarrow> Account_update a' s = Inr s' \<Longrightarrow>
   Account_find i s' = Some a'"
  by (auto simp: Account_find_def Account_update_def find_map_replace split: if_splits)

lemma find_alice: "Account_find 1 one_store = Some alice"
  by (simp add: Account_find_def one_store_def alice_def)

lemma find_nobody: "Account_find 22 one_store = None"
  by (simp add: Account_find_def one_store_def alice_def)

lemma full_fields_lookup:
  "map_of full_fields ''name'' = Some (JStr ''benjamin'')"
  "map_of full_fields ''email'' = Some (JStr ''benjamin@gmail.com'')"
  "map_of full_fields ''address'' = Some (JStr ''2 Side Street'')"
  "map_of full_fields ''phone_number'' = Some (JStr ''555-0199'')"
  "map_of full_fields ''date_joined'' = Some (JStr ''2020-02-03'')"
  by (simp_all add: full_fields_def)

lemma sample_parse_date_example: "parse_date sample_env (JStr ''2020-02-03'') = Date 2020 2 3"
  by (simp add: sample_env_def digit_val_def)

lemma find_alice_down: "Account_find 1 down_store = Some alice"
  by (simp add: Account_find_def down_store_def alice_def)

text \<open>
  What the update handler does with a stored account and a non-empty payload that lacks
  a required field: deserialize raises and update is not called, so the store is the one
  it was; the handler then hands the caught exception object to \<^verbatim>\<open>jsonify\<close> as the
  value of \<^verbatim>\<open>details\<close>, and the encoder raises \<^verbatim>\<open>TypeError\<close>.
\<close>

lemma update_account_details_not_encodable:
  assumes "Account_find i s = Some ac" and "get_json req = Inr payload" and "truthy payload"
    and "f \<in> set required_fields" and "\<not> has_field payload f"
  shows "update_account i env req s = (Inl (TypeError ''Object is not JSON serializable''), s)"
proof -
  obtain msg where
    "Account_deserialize env ac payload = Inl (DeserializationError msg)"
    using deserialize_missing [OF assms(4,5)] by blast
  then show ?thesis using assms(1-3)
    by (simp add: update_account_def make_response_def)
qed

section \<open>The content-type guard and account creation\<close>

text \<open>
  C2. On a POST to /accounts the content-type guard passes exactly when the request has
  a Content-Type header whose value is the string \<^verbatim>\<open>application/json\<close>, with no
  tolerance for parameters or other spellings. In every other case, header absent or
  different, the handler is left by an abort with status 415 before deserialize or
  create runs, and the store is the one it was.
\<close>

theorem create_accounts_content_type_guard:
  "(check_content_type ''application/json'' req = Inr ()) =
     (content_type req = Some ''application/json'') \<and>
   (content_type req \<noteq> Some ''application/json'' \<longrightarrow>
      create_accounts env req s =
        (Inl (HTTPException HTTP_415_UNSUPPORTED_MEDIA_TYPE
                ''Content-Type must be application/json''), s) \<and>
      status_of (fst (create_accounts env req s)) = HTTP_415_UNSUPPORTED_MEDIA_TYPE)"
  by (auto simp add: check_content_type_def create_accounts_def split: option.splits)

theorem create_accounts_content_type_guard_witness:
  "content_type (html_request full_payload) \<noteq> Some ''application/json'' \<and>
   create_accounts sample_env (html_request full_payload) one_store =
     (Inl (HTTPException 415 ''Content-Type must be application/json''), one_store) \<and>
   content_type bare_request \<noteq> Some ''application/json'' \<and>
   status_of (fst (create_accounts sample_env bare_request empty_store)) = 415 \<and>
   snd (create_accounts sample_env bare_request empty_store) = empty_store"
proof -
  have h1: "content_type (html_request full_payload) \<noteq> Some ''application/json''"
    by (simp add: html_request_def)
  have h2: "content_type bare_request \<noteq> Some ''application/json''"
    by (simp add: bare_request_def)
  show ?thesis
    using h1 h2
      create_accounts_content_type_guard [of "html_request full_payload" sample_env one_store]
      create_accounts_content_type_guard [of bare_request sample_env empty_store]
    by simp
qed

text \<open>
  C3. A POST to /accounts with Content-Type \<^verbatim>\<open>application/json\<close> and a payload that is
  a mapping with all four required fields, when the store accepts the insert, returns
  status 201, a Location header with the value \<^verbatim>\<open>/\<close>, and as body the serialization of
  the created account: the payload's required fields with the id the store assigned (and
  the payload's date, or the creation date when it gives none); the account is the new
  last row. When the store rejects the insert, create raises: the handler returns no
  response, the request ends as a server fault, and no row is created.
\<close>

theorem create_accounts_created:
  assumes "content_type req = Some ''application/json''"
    and "get_json req = Inr (JObj kvs)"
    and "map_of kvs ''name'' = Some n" and "map_of kvs ''email'' = Some e"
    and "map_of kvs ''address'' = Some ad" and "map_of kvs ''phone_number'' = Some p"
    and "new = \<lparr>account_id = None, name = n, email = e, address = ad, phone_number = p,
                 date_joined = (case map_of kvs ''date_joined'' of
                                  None \<Rightarrow> today env | Some d \<Rightarrow> parse_date env d)\<rparr>"
  shows "(\<not> rejects s (Insert new) \<longrightarrow>
            (\<exists>a s'. create_accounts env req s =
                      (Inr \<lparr>body = Account_serialize env a, status = HTTP_201_CREATED,
                            headers = [(''Location'', ''/'')]\<rparr>, s') \<and>
                    account_id a = Some (next_id s) \<and>
                    name a = n \<and> email a = e \<and> address a = ad \<and> phone_number a = p \<and>
                    date_joined a = date_joined new \<and>
                    rows s' = rows s @ [a])) \<and>
         (rejects s (Insert new) \<longrightarrow>
            create_accounts env req s = (Inl StoreError, s) \<and>
            status_of (fst (create_accounts env req s)) = HTTP_500_INTERNAL_SERVER_ERROR)"
proof -
  let ?a = "new\<lparr>account_id := Some (next_id s)\<rparr>"
  let ?s = "s\<lparr>rows := rows s @ [?a], next_id := next_id s + 1\<rparr>"
  have des: "Account_deserialize env (Account env) (JObj kvs) = Inr new"
    using assms(3-7) by (simp add: Account_def split: option.split)
  have guard: "check_content_type ''application/json'' req = Inr ()"
    using assms(1) by (simp add: check_content_type_def)
  have accepted: "create_accounts env req s =
               (Inr \<lparr>body = Account_serialize env ?a, status = HTTP_201_CREATED,
                     headers = [(''Location'', ''/'')]\<rparr>, ?s)"
    if "\<not> rejects s (Insert new)"
    using that guard des assms(2)
    by (simp add: create_accounts_def Account_create_def make_response_def Let_def)
  have rejected: "create_accounts env req s = (Inl StoreError, s)"
    if "rejects s (Insert new)"
    using that guard des assms(2)
    by (simp add: create_accounts_def Account_create_def)
  show ?thesis
  proof (intro conjI impI)
    assume "\<not> rejects s (Insert new)"
    then have "create_accounts env req s =
               (Inr \<lparr>body = Account_serialize env ?a, status = HTTP_201_CREATED,
                     headers = [(''Location'', ''/'')]\<rparr>, ?s)"
      by (rule accepted)
    then show "\<exists>a s'. create_accounts env req s =
                      (Inr \<lparr>body = Account_serialize env a, status = HTTP_201_CREATED,
                            headers = [(''Location'', ''/'')]\<rparr>, s') \<and>
                    account_id a = Some (next_id s) \<and>
                    name a = n \<and> email a = e \<and> address a = ad \<and> phone_number a = p \<and>
                    date_joined a = date_joined new \<and>
                    rows s' = rows s @ [a]"
      using assms(7) by (intro exI [of _ ?a] exI [of _ ?s]) simp
  next
    assume r: "rejects s (Insert new)"
    show "create_accounts env req s = (Inl StoreError, s)" using r by (rule rejected)
    show "status_of (fst (create_accounts env req s)) = HTTP_500_INTERNAL_SERVER_ERROR"
      using rejected [OF r] by simp
  qed
qed

theorem create_accounts_created_witness:
  "\<not> rejects one_store (Insert benjamin) \<and>
   (\<exists>a s'. create_accounts sample_env (json_request full_payload) one_store =
            (Inr \<lparr>body = Account_serialize sample_env a, status = 201,
                  headers = [(''Location'', ''/'')]\<rparr>, s') \<and>
          account_id a = Some 2 \<and>
          name a = JStr ''benjamin'' \<and> email a = JStr ''benjamin@gmail.com'' \<and>
          address a = JStr ''2 Side Street'' \<and> phone_number a = JStr ''555-0199'' \<and>
          date_joined a = Date 2020 2 3 \<and>
          rows s' = [alice, a]) \<and>
   rejects down_store (Insert benjamin) \<and>
   create_accounts sample_env (json_request full_payload) down_store =
     (Inl StoreError, down_store)"
proof -
  have h1: "content_type (json_request full_payload) = Some ''application/json''"
    by (simp add: json_request_def)
  have h2: "get_json (json_request full_payload) = Inr (JObj full_fields)"
    by (simp add: json_request_def full_payload_def)
  have new: "benjamin =
      \<lparr>account_id = None, name = JStr ''benjamin'', email = JStr ''benjamin@gmail.com'',
       address = JStr ''2 Side Street'', phone_number = JStr ''555-0199'',
       date_joined = (case map_of full_fields ''date_joined'' of
                        None \<Rightarrow> today sample_env | Some d \<Rightarrow> parse_date sample_env d)\<rparr>"
    by (simp add: benjamin_def full_fields_lookup(5) sample_parse_date_example)
  have acc: "\<not> rejects one_store (Insert benjamin)" by (simp add: one_store_def)
  have rej: "rejects down_store (Insert benjamin)" by (simp add: down_store_def)
  have d: "date_joined benjamin = Date 2020 2 3" by (simp add: benjamin_def)
  have r: "rows one_store = [alice]" "next_id one_store = 2" by (simp_all add: one_store_def)
  show ?thesis
    using acc rej
      create_accounts_created [OF h1 h2 full_fields_lookup(1-4) new, of one_store]
      create_accounts_created [OF h1 h2 full_fields_lookup(1-4) new, of down_store]
    by (simp add: d r)
qed

text \<open>
  C3 as it was stated, for every such POST, fails when the store rejects the insert:
  with the right content type and a payload holding all required fields the handler
  raises and the answer is a server fault, not 201.
\<close>

theorem create_accounts_created_counterexample:
  "content_type (json_request full_payload) = Some ''application/json'' \<and>
   get_json (json_request full_payload) = Inr full_payload \<and>
   has_field full_payload ''name'' \<and> has_field full_payload ''email'' \<and>
   has_field full_payload ''address'' \<and> has_field full_payload ''phone_number'' \<and>
   create_accounts sample_env (json_request full_payload) down_store =
     (Inl StoreError, down_store) \<and>
   status_of (fst (create_accounts sample_env (json_request full_payload) down_store)) \<noteq>
     HTTP_201_CREATED"
proof -
  have "create_accounts sample_env (json_request full_payload) down_store =
          (Inl StoreError, down_store)"
    by (simp add: create_accounts_def check_content_type_def json_request_def
        full_payload_def full_fields_def Account_create_def down_store_def)
  then show ?thesis
    by (simp add: json_request_def full_payload_def full_fields_def)
qed

text \<open>
  C4. A POST to /accounts with the right content type whose payload lacks one of the
  required fields is answered with status 400 and creates no row: deserialize raises
  before create is reached, and the store is the one it was.
\<close>

theorem create_accounts_missing_field:
  assumes "content_type req = Some ''application/json''"
    and "get_json req = Inr payload"
    and "f \<in> set required_fields" and "\<not> has_field payload f"
  shows "(\<exists>msg. create_accounts env req s = (Inl (DeserializationError msg), s)) \<and>
         status_of (fst (create_accounts env req s)) = HTTP_400_BAD_REQUEST"
proof -
  obtain msg where
    "Account_deserialize env (Account env) payload = Inl (DeserializationError msg)"
    using deserialize_missing [OF assms(3,4)] by blast
  then have "create_accounts env req s = (Inl (DeserializationError msg), s)"
    using assms(1,2) by (simp add: create_accounts_def check_content_type_def)
  then show ?thesis by simp
qed

theorem create_accounts_missing_field_witness:
  "content_type (json_request (JObj [(''name'', JStr ''not enough data'')])) =
     Some ''application/json'' \<and>
   ''email'' \<in> set required_fields \<and>
   \<not> has_field (JObj [(''name'', JStr ''not enough data'')]) ''email'' \<and>
   (\<exists>msg. create_accounts sample_env
            (json_request (JObj [(''name'', JStr ''not enough data'')])) one_store =
          (Inl (DeserializationError msg), one_store)) \<and>
   status_of (fst (create_accounts sample_env
            (json_request (JObj [(''name'', JStr ''not enough data'')])) one_store)) = 400"
proof -
  let ?payload = "JObj [(''name'', JStr ''not enough data'')]"
  have h1: "content_type (json_request ?payload) = Some ''application/json''"
    by (simp add: json_request_def)
  have h2: "get_json (json_request ?payload) = Inr ?payload"
    by (simp add: json_request_def)
  have h3: "''email'' \<in> set required_fields"
    by (simp add: required_fields_def)
  have h4: "\<not> has_field ?payload ''email''"
    by simp
  show ?thesis
    using h1 h3 h4 create_accounts_missing_field [OF h1 h2 h3 h4, of sample_env one_store]
    by blast
qed

section \<open>Reading\<close>

text \<open>
  C5. For every store, GET /accounts returns status 200 with the array of the
  serializations of all stored accounts when there is at least one, and status 404 with
  the body \<^verbatim>\<open>{"error": "accounts not found"}\<close> when there is none.
\<close>

theorem read_accounts_lists_or_404:
  "(Account_all s \<noteq> [] \<longrightarrow>
      read_accounts env req s =
        (Inr \<lparr>body = JArr (map (Account_serialize env) (Account_all s)),
              status = HTTP_200_OK, headers = []\<rparr>, s)) \<and>
   (Account_all s = [] \<longrightarrow>
      read_accounts env req s =
        (Inr \<lparr>body = JObj [(''error'', JStr ''accounts not found'')],
              status = HTTP_404_NOT_FOUND, headers = []\<rparr>, s))"
  by (simp add: read_accounts_def make_response_def jsonify_error_body Let_def)

theorem read_accounts_lists_or_404_witness:
  "Account_all one_store \<noteq> [] \<and>
   read_accounts sample_env bare_request one_store =
     (Inr \<lparr>body = JArr [Account_serialize sample_env alice], status = 200, headers = []\<rparr>,
      one_store) \<and>
   Account_all empty_store = [] \<and>
   read_accounts sample_env bare_request empty_store =
     (Inr \<lparr>body = JObj [(''error'', JStr ''accounts not found'')], status = 404,
           headers = []\<rparr>, empty_store)"
proof -
  have h1: "Account_all one_store \<noteq> []" by (simp add: Account_all_def one_store_def)
  have h2: "Account_all empty_store = []" by (simp add: Account_all_def empty_store_def)
  have all1: "Account_all one_store = [alice]" by (simp add: Account_all_def one_store_def)
  show ?thesis
    using h1 h2 all1
      read_accounts_lists_or_404 [of one_store sample_env bare_request]
      read_accounts_lists_or_404 [of empty_store sample_env bare_request]
    by simp
qed

text \<open>
  C9. The handlers of GET /health, GET /, GET /accounts and GET /accounts/{id} leave
  the store as they found it, whatever the store, the request and the id.
\<close>

theorem read_only_handlers_keep_store:
  "snd (health env req s) = s \<and> snd (index env req s) = s \<and>
   snd (read_accounts env req s) = s \<and> snd (read_account i env req s) = s"
  by (simp add: health_def index_def read_accounts_def read_account_def Let_def
      split: option.split)

section \<open>Updating\<close>

text \<open>
  C8. For every id, whether or not the store has a record with it, a PUT to
  /accounts/{id} whose JSON body parses to a false value (the empty object \<^verbatim>\<open>{}\<close>, and
  likewise \<^verbatim>\<open>null\<close>, an empty list or string, zero, false) returns status 405. The
  test comes before the lookup: the answer is the same for every id and every store, and
  the store is the one it was. A request whose body is absent or zero-length does not
  reach the test: \<^verbatim>\<open>get_json()\<close> raises, the handler ends with that exception, and the
  store is the one it was.
\<close>

theorem update_account_empty_body_405:
  "(get_json req = Inr payload \<and> \<not> truthy payload \<longrightarrow>
      (\<exists>resp. update_account i env req s = (Inr resp, s) \<and>
              status resp = HTTP_405_METHOD_NOT_ALLOWED) \<and>
      fst (update_account i env req s) = fst (update_account j env req t)) \<and>
   (get_json req = Inl e \<longrightarrow> update_account i env req s = (Inl e, s))"
  by (simp add: update_account_def make_response_def jsonify_error_body)

theorem update_account_empty_body_405_witness:
  "get_json (json_request (JObj [])) = Inr (JObj []) \<and> \<not> truthy (JObj []) \<and>
   Account_find 0 empty_store = None \<and>
   (\<exists>resp. update_account 0 sample_env (json_request (JObj [])) empty_store =
             (Inr resp, empty_store) \<and> status resp = 405) \<and>
   Account_find 1 one_store = Some alice \<and>
   (\<exists>resp. update_account 1 sample_env (json_request (JObj [])) one_store =
             (Inr resp, one_store) \<and> status resp = 405) \<and>
   get_json no_body_request = Inl (HTTPException 400 ''Bad Request'') \<and>
   update_account 1 sample_env no_body_request one_store =
     (Inl (HTTPException 400 ''Bad Request''), one_store)"
proof -
  have g1: "get_json (json_request (JObj [])) = Inr (JObj [])"
    by (simp add: json_request_def)
  have g2: "get_json no_body_request = Inl (HTTPException 400 ''Bad Request'')"
    by (simp add: no_body_request_def)
  have h1: "\<not> truthy (JObj [])" by simp
  have nobody: "Account_find 0 empty_store = None"
    by (simp add: Account_find_def empty_store_def)
  show ?thesis
    using g1 g2 h1 nobody find_alice
      update_account_empty_body_405 [of "json_request (JObj [])" "JObj []" 0 sample_env
        empty_store 0 empty_store "TypeError []"]
      update_account_empty_body_405 [of "json_request (JObj [])" "JObj []" 1 sample_env
        one_store 1 one_store "TypeError []"]
      update_account_empty_body_405 [of no_body_request JNull 1 sample_env one_store 1
        one_store "HTTPException 400 ''Bad Request''"]
    by simp
qed

text \<open>
  C8 as it was stated, with the absent body among the bodies answered with 405, fails:
  for a PUT declared as JSON with a zero-length body, and for a PUT with no body and no
  Content-Type header, \<^verbatim>\<open>get_json()\<close> raises before the test is made, and the answer is
  the framework's 400 or 415.
\<close>

theorem update_account_empty_body_405_counterexample:
  "update_account 0 sample_env no_body_request empty_store =
     (Inl (HTTPException 400 ''Bad Request''), empty_store) \<and>
   status_of (fst (update_account 0 sample_env no_body_request empty_store)) \<noteq>
     HTTP_405_METHOD_NOT_ALLOWED \<and>
   update_account 0 sample_env bare_request empty_store =
     (Inl (HTTPException 415 ''Unsupported Media Type''), empty_store) \<and>
   status_of (fst (update_account 0 sample_env bare_request empty_store)) \<noteq>
     HTTP_405_METHOD_NOT_ALLOWED"
  by (simp add: update_account_def no_body_request_def bare_request_def)

text \<open>
  C10. The 405 response to a PUT with an empty body has the JSON body
  \<^verbatim>\<open>{"error": "id not found"}\<close>, the very body of the 404 responses of update and of
  delete for an id the store does not have; it does not speak of the empty body.
\<close>

theorem empty_body_error_message:
  "(get_json req = Inr payload \<and> \<not> truthy payload \<longrightarrow>
      fst (update_account i env req s) =
        Inr \<lparr>body = JObj [(''error'', JStr ''id not found'')],
             status = HTTP_405_METHOD_NOT_ALLOWED, headers = []\<rparr>) \<and>
   (get_json req = Inr payload \<and> truthy payload \<and> Account_find i s = None \<longrightarrow>
      fst (update_account i env req s) =
        Inr \<lparr>body = JObj [(''error'', JStr ''id not found'')],
             status = HTTP_404_NOT_FOUND, headers = []\<rparr>) \<and>
   (Account_find i s = None \<longrightarrow>
      fst (delete_account i env req s) =
        Inr \<lparr>body = JObj [(''error'', JStr ''id not found'')],
             status = HTTP_404_NOT_FOUND, headers = []\<rparr>)"
  by (simp add: update_account_def delete_account_def make_response_def jsonify_error_body)

theorem empty_body_error_message_witness:
  "get_json (json_request (JObj [])) = Inr (JObj []) \<and> \<not> truthy (JObj []) \<and>
   fst (update_account 1 sample_env (json_request (JObj [])) one_store) =
     Inr \<lparr>body = JObj [(''error'', JStr ''id not found'')], status = 405, headers = []\<rparr> \<and>
   get_json (json_request full_payload) = Inr full_payload \<and> truthy full_payload \<and>
   Account_find 22 one_store = None \<and>
   fst (update_account 22 sample_env (json_request full_payload) one_store) =
     Inr \<lparr>body = JObj [(''error'', JStr ''id not found'')], status = 404, headers = []\<rparr> \<and>
   fst (delete_account 22 sample_env (json_request full_payload) one_store) =
     Inr \<lparr>body = JObj [(''error'', JStr ''id not found'')], status = 404, headers = []\<rparr>"
proof -
  have g1: "get_json (json_request (JObj [])) = Inr (JObj [])"
    by (simp add: json_request_def)
  have g2: "get_json (json_request full_payload) = Inr full_payload"
    by (simp add: json_request_def)
  have h1: "\<not> truthy (JObj [])" by simp
  have h2: "truthy full_payload"
    by (simp add: full_payload_def full_fields_def)
  show ?thesis
    using g1 g2 h1 h2 find_nobody
      empty_body_error_message [of "json_request (JObj [])" "JObj []" 1 sample_env one_store]
      empty_body_error_message [of "json_request full_payload" full_payload 22 sample_env
        one_store]
    by blast
qed

text \<open>
  C6. For a stored account with id I, a PUT to /accounts/{I} with a payload that is a
  mapping with all four required fields, when the store accepts the update, returns
  status 200 with the serialization of the updated account; the account keeps its id,
  its required fields are the payload's (and its date too when the payload gives one),
  the rows with other ids are untouched, and a find(I) that follows returns the updated
  account. When the store rejects the update, update raises: the handler returns no
  response, the request ends as a server fault, and the stored record is unchanged.
\<close>

theorem update_account_updates:
  assumes "Account_find i s = Some ac"
    and "get_json req = Inr (JObj kvs)"
    and "map_of kvs ''name'' = Some n" and "map_of kvs ''email'' = Some e"
    and "map_of kvs ''address'' = Some ad" and "map_of kvs ''phone_number'' = Some p"
    and "upd = ac\<lparr>name := n, email := e, address := ad, phone_number := p,
                   date_joined := (case map_of kvs ''date_joined'' of
                                     None \<Rightarrow> date_joined ac | Some d \<Rightarrow> parse_date env d)\<rparr>"
  shows "(\<not> rejects s (Update upd) \<longrightarrow>
            (\<exists>s'. update_account i env req s =
                    (Inr \<lparr>body = Account_serialize env upd, status = HTTP_200_OK,
                          headers = []\<rparr>, s') \<and>
                  Account_find i s' = Some upd \<and> account_id upd = Some i \<and>
                  name upd = n \<and> email upd = e \<and> address upd = ad \<and>
                  phone_number upd = p \<and>
                  rows s' = map (\<lambda>r. if account_id r = Some i then upd else r) (rows s))) \<and>
         (rejects s (Update upd) \<longrightarrow>
            update_account i env req s = (Inl StoreError, s) \<and>
            status_of (fst (update_account i env req s)) = HTTP_500_INTERNAL_SERVER_ERROR \<and>
            Account_find i s = Some ac)"
proof -
  let ?s = "s\<lparr>rows := map (\<lambda>r. if account_id r = Some i then upd else r) (rows s)\<rparr>"
  have aid: "account_id upd = Some i" using assms(1,7) by (simp add: find_id)
  have nonempty: "truthy (JObj kvs)" using assms(3) by auto
  have des: "Account_deserialize env ac (JObj kvs) = Inr upd"
    using assms(3-7) by simp
  have accepted: "update_account i env req s =
          (Inr \<lparr>body = Account_serialize env upd, status = HTTP_200_OK, headers = []\<rparr>, ?s)"
    and upd_ok: "Account_update upd s = Inr ?s"
    if "\<not> rejects s (Update upd)"
    using that nonempty assms(1,2) des aid
    by (simp_all add: update_account_def make_response_def Account_update_def)
  have rejected: "update_account i env req s = (Inl StoreError, s)"
    if "rejects s (Update upd)"
    using that nonempty assms(1,2) des
    by (simp add: update_account_def Account_update_def)
  show ?thesis
  proof (intro conjI impI)
    assume ok: "\<not> rejects s (Update upd)"
    have "Account_find i ?s = Some upd"
      using assms(1) aid upd_ok [OF ok] by (rule find_after_update)
    then show "\<exists>s'. update_account i env req s =
                    (Inr \<lparr>body = Account_serialize env upd, status = HTTP_200_OK,
                          headers = []\<rparr>, s') \<and>
                  Account_find i s' = Some upd \<and> account_id upd = Some i \<and>
                  name upd = n \<and> email upd = e \<and> address upd = ad \<and>
                  phone_number upd = p \<and>
                  rows s' = map (\<lambda>r. if account_id r = Some i then upd else r) (rows s)"
      using accepted [OF ok] aid assms(7) by (intro exI [of _ ?s]) simp
  next
    assume r: "rejects s (Update upd)"
    show "update_account i env req s = (Inl StoreError, s)" using r by (rule rejected)
    show "status_of (fst (update_account i env req s)) = HTTP_500_INTERNAL_SERVER_ERROR"
      using rejected [OF r] by simp
    show "Account_find i s = Some ac" by (rule assms(1))
  qed
qed

theorem update_account_updates_witness:
  "Account_find 1 one_store = Some alice \<and> name alice = JStr ''alice'' \<and>
   \<not> rejects one_store (Update alice_updated) \<and>
   (\<exists>s'. update_account 1 sample_env (json_request full_payload) one_store =
           (Inr \<lparr>body = Account_serialize sample_env alice_updated, status = 200,
                 headers = []\<rparr>, s') \<and>
         Account_find 1 s' = Some alice_updated \<and> rows s' = [alice_updated]) \<and>
   name alice_updated = JStr ''benjamin'' \<and> date_joined alice_updated = Date 2020 2 3 \<and>
   Account_find 1 down_store = Some alice \<and>
   rejects down_store (Update alice_updated) \<and>
   update_account 1 sample_env (json_request full_payload) down_store =
     (Inl StoreError, down_store)"
proof -
  have h2: "get_json (json_request full_payload) = Inr (JObj full_fields)"
    by (simp add: json_request_def full_payload_def)
  have upd: "alice_updated =
      alice\<lparr>name := JStr ''benjamin'', email := JStr ''benjamin@gmail.com'',
            address := JStr ''2 Side Street'', phone_number := JStr ''555-0199'',
            date_joined := (case map_of full_fields ''date_joined'' of
                              None \<Rightarrow> date_joined alice
                            | Some d \<Rightarrow> parse_date sample_env d)\<rparr>"
    by (simp add: alice_updated_def alice_def full_fields_lookup(5) sample_parse_date_example)
  have nm: "name alice = JStr ''alice''" by (simp add: alice_def)
  have acc: "\<not> rejects one_store (Update alice_updated)" by (simp add: one_store_def)
  have rej: "rejects down_store (Update alice_updated)" by (simp add: down_store_def)
  have r: "rows one_store = [alice]" by (simp add: one_store_def)
  have a1: "account_id alice = Some 1" by (simp add: alice_def)
  have u: "name alice_updated = JStr ''benjamin''" "date_joined alice_updated = Date 2020 2 3"
    by (simp_all add: alice_updated_def)
  show ?thesis
    using find_alice find_alice_down nm acc rej u
      update_account_updates [OF find_alice h2 full_fields_lookup(1-4) upd]
      update_account_updates [OF find_alice_down h2 full_fields_lookup(1-4) upd]
    by (auto simp add: r a1)
qed

text \<open>
  C6 as it was stated, for every such PUT, fails when the store rejects the update: for
  the stored account 1 and a payload holding all required fields the handler raises, the
  answer is a server fault and not 200, and find(1) still returns the old record.
\<close>

theorem update_account_updates_counterexample:
  "Account_find 1 down_store = Some alice \<and>
   get_json (json_request full_payload) = Inr full_payload \<and> truthy full_payload \<and>
   has_field full_payload ''name'' \<and> has_field full_payload ''email'' \<and>
   has_field full_payload ''address'' \<and> has_field full_payload ''phone_number'' \<and>
   update_account 1 sample_env (json_request full_payload) down_store =
     (Inl StoreError, down_store) \<and>
   status_of (fst (update_account 1 sample_env (json_request full_payload) down_store)) \<noteq>
     HTTP_200_OK"
proof -
  have "update_account 1 sample_env (json_request full_payload) down_store =
          (Inl StoreError, down_store)"
    using find_alice_down
    by (simp add: update_account_def json_request_def full_payload_def full_fields_def
        Account_update_def down_store_def)
  then show ?thesis
    using find_alice_down by (simp add: json_request_def full_payload_def full_fields_def)
qed

text \<open>
  C1. For a stored account with id I, a PUT to /accounts/{I} with a non-empty payload
  that lacks a required field should return status 409 with an error and its details,
  and leave the record as it was. At the payload \<^verbatim>\<open>{"city": "goda"}\<close> of
  tests/test_routes.py and a store holding account 1, the handler returns no response:
  it raises \<^verbatim>\<open>TypeError\<close>, which is a server fault and not a 409. The store is
  unchanged.
\<close>

theorem update_account_missing_field_raises:
  "update_account 1 sample_env (json_request city_payload) one_store =
     (Inl (TypeError ''Object is not JSON serializable''), one_store) \<and>
   status_of (fst (update_account 1 sample_env (json_request city_payload) one_store)) \<noteq>
     HTTP_409_CONFLICT"
proof -
  have "update_account 1 sample_env (json_request city_payload) one_store =
          (Inl (TypeError ''Object is not JSON serializable''), one_store)"
    using find_alice
    by (simp add: update_account_def make_response_def json_request_def city_payload_def)
  then show ?thesis by simp
qed

section \<open>Deleting\<close>

text \<open>
  C7. DELETE /accounts/{id} for an id the store has, when the store accepts the delete,
  returns status 204 with an empty body and removes the rows with that id, so that a
  find(id) that follows returns nothing. When the store rejects the delete, delete
  raises: the handler returns no response, the request ends as a server fault, and the
  store is the one it was. For an id the store does not have the handler returns status
  404 with the body \<^verbatim>\<open>{"error": "id not found"}\<close> and leaves the store as it was.
\<close>

theorem delete_account_removes_or_404:
  "(Account_find i s = Some ac \<and> \<not> rejects s (Delete ac) \<longrightarrow>
      (\<exists>s'. delete_account i env req s =
               (Inr \<lparr>body = JObj [], status = HTTP_204_NO_CONTENT, headers = []\<rparr>, s') \<and>
             Account_find i s' = None \<and>
             rows s' = filter (\<lambda>r. account_id r \<noteq> Some i) (rows s))) \<and>
   (Account_find i s = Some ac \<and> rejects s (Delete ac) \<longrightarrow>
      delete_account i env req s = (Inl StoreError, s) \<and>
      status_of (fst (delete_account i env req s)) = HTTP_500_INTERNAL_SERVER_ERROR) \<and>
   (Account_find i s = None \<longrightarrow>
      delete_account i env req s =
        (Inr \<lparr>body = JObj [(''error'', JStr ''id not found'')],
              status = HTTP_404_NOT_FOUND, headers = []\<rparr>, s))"
proof (intro conjI impI)
  let ?s = "s\<lparr>rows := filter (\<lambda>r. account_id r \<noteq> Some i) (rows s)\<rparr>"
  assume "Account_find i s = Some ac \<and> \<not> rejects s (Delete ac)"
  then have found: "Account_find i s = Some ac" and ok: "\<not> rejects s (Delete ac)"
    by simp_all
  have aid: "account_id ac = Some i" using found by (simp add: find_id)
  have del: "Account_delete ac s = Inr ?s"
    using ok aid by (simp add: Account_delete_def)
  have "delete_account i env req s =
          (Inr \<lparr>body = JObj [], status = HTTP_204_NO_CONTENT, headers = []\<rparr>, ?s)"
    using found del by (simp add: delete_account_def)
  moreover have "Account_find i ?s = None"
    using aid del by (rule find_after_delete)
  ultimately show "\<exists>s'. delete_account i env req s =
               (Inr \<lparr>body = JObj [], status = HTTP_204_NO_CONTENT, headers = []\<rparr>, s') \<and>
             Account_find i s' = None \<and>
             rows s' = filter (\<lambda>r. account_id r \<noteq> Some i) (rows s)"
    by (intro exI [of _ ?s]) simp
next
  assume "Account_find i s = Some ac \<and> rejects s (Delete ac)"
  then have r: "delete_account i env req s = (Inl StoreError, s)"
    by (simp add: delete_account_def Account_delete_def)
  show "delete_account i env req s = (Inl StoreError, s)" by (rule r)
  show "status_of (fst (delete_account i env req s)) = HTTP_500_INTERNAL_SERVER_ERROR"
    using r by simp
next
  assume "Account_find i s = None"
  then show "delete_account i env req s =
        (Inr \<lparr>body = JObj [(''error'', JStr ''id not found'')],
              status = HTTP_404_NOT_FOUND, headers = []\<rparr>, s)"
    by (simp add: delete_account_def make_response_def jsonify_error_body)
qed

theorem delete_account_removes_or_404_witness:
  "Account_find 1 one_store = Some alice \<and> \<not> rejects one_store (Delete alice) \<and>
   (\<exists>s'. delete_account 1 sample_env bare_request one_store =
            (Inr \<lparr>body = JObj [], status = 204, headers = []\<rparr>, s') \<and>
          Account_find 1 s' = None \<and> rows s' = []) \<and>
   Account_find 1 down_store = Some alice \<and> rejects down_store (Delete alice) \<and>
   delete_account 1 sample_env bare_request down_store = (Inl StoreError, down_store) \<and>
   Account_find 22 one_store = None \<and>
   delete_account 22 sample_env bare_request one_store =
     (Inr \<lparr>body = JObj [(''error'', JStr ''id not found'')], status = 404, headers = []\<rparr>,
      one_store)"
proof -
  have acc: "\<not> rejects one_store (Delete alice)" by (simp add: one_store_def)
  have rej: "rejects down_store (Delete alice)" by (simp add: down_store_def)
  have r: "filter (\<lambda>r. account_id r \<noteq> Some 1) (rows one_store) = []"
    by (simp add: one_store_def alice_def)
  show ?thesis
    using acc rej r find_alice find_alice_down find_nobody
      delete_account_removes_or_404 [of 1 one_store alice sample_env bare_request]
      delete_account_removes_or_404 [of 1 down_store alice sample_env bare_request]
      delete_account_removes_or_404 [of 22 one_store alice sample_env bare_request]
    by simp
qed

text \<open>
  C7 as it was stated, for every id the store has, fails when the store rejects the
  delete: for the stored account 1 the handler raises, the answer is a server fault and
  not 204, and find(1) still returns the record.
\<close>

theorem delete_account_removes_or_404_counterexample:
  "Account_find 1 down_store = Some alice \<and>
   delete_account 1 sample_env bare_request down_store = (Inl StoreError, down_store) \<and>
   status_of (fst (delete_account 1 sample_env bare_request down_store)) \<noteq>
     HTTP_204_NO_CONTENT \<and>
   Account_find 1 (snd (delete_account 1 sample_env bare_request down_store)) = Some alice"
proof -
  have "delete_account 1 sample_env bare_request down_store = (Inl StoreError, down_store)"
    using find_alice_down
    by (simp add: delete_account_def Account_delete_def down_store_def)
  then show ?thesis using find_alice_down by simp
qed

end
